theory Spec2Isabelle
  imports Complex_Main "HOL-Library.Word"
begin

section \<open>The dummy traffic plugin of Navit (traffic\_dummy.c)\<close>

text \<open>
  A shallow embedding of \<^verbatim>\<open>navit/traffic/dummy/traffic_dummy.c\<close>. The file holds the
  instance structure \<^verbatim>\<open>traffic_priv\<close>, the report generator
  \<^verbatim>\<open>traffic_dummy_get_messages\<close>, the method table, the constructor
  \<^verbatim>\<open>traffic_dummy_new\<close> and \<^verbatim>\<open>plugin_init\<close>. Everything else it calls (the
  constructors of points, locations and messages, the plugin registry, the debug macro,
  the allocator and the clock) belongs to the host and is declared in headers that are
  not part of the sources at hand.
\<close>

subsection \<open>C types\<close>

text \<open>
  A C pointer is an \<open>option\<close>: \<open>None\<close> is \<^verbatim>\<open>NULL\<close>. \<^verbatim>\<open>int\<close> is a 32-bit word, read
  in two's complement by \<open>sint\<close>; its increment wraps around, as the machines Navit is
  built for compute it (ISO C leaves the overflow of a signed \<^verbatim>\<open>int\<close> undefined, so
  the wrap-around is the behaviour of the compiled program, not a promise of the
  language). \<^verbatim>\<open>time_t\<close> is the signed 64-bit integer of the LP64 targets, a word as
  well: \<^verbatim>\<open>time(NULL) + 20\<close> and \<^verbatim>\<open>time(NULL) - 10\<close> wrap around at the ends of its
  range. The coordinates are the decimal literals of the source, taken at their exact
  decimal value.
\<close>

type_synonym addr = nat
type_synonym c_int = "32 word"
type_synonym time_t = "64 word"

subsection \<open>Enumerations of the host\<close>

text \<open>
  Only the enumerators that the plugin names are listed; the host's headers declare the
  full enumerations.
\<close>

datatype location_dir = location_dir_one
datatype location_fuzziness = location_fuzziness_low_res
datatype location_ramps = location_ramps_none
datatype item_type = type_highway_land
datatype event_class = event_class_congestion
datatype event_type = event_congestion_queue | event_congestion_slow_traffic
datatype dbg_level = lvl_error

subsection \<open>Points, locations and messages\<close>

record traffic_point =
  lon :: real
  lat :: real
  junction_name :: string
  junction_ref :: string
  tmc_id :: string

record traffic_location =
  loc_prefix :: "string option"
  from_point :: traffic_point
  to_point :: traffic_point
  area_name :: string
  arg5 :: "string option"
  directionality :: location_dir
  fuzziness :: location_fuzziness
  ramps :: location_ramps
  road_type :: item_type
  arg10 :: "string option"
  road_name :: string
  table_ref :: string
  arg13 :: int

text \<open>
  A message is either the report of a single event, with its class and type, or a
  cancellation, which has neither.
\<close>

datatype traffic_message =
  Single_event
    (msg_id: string) (receive_time: time_t) (update_time: time_t) (expiration_time: time_t)
    (msg_flag: int) (msg_location: traffic_location)
    (msg_class: event_class) (msg_type: event_type)
| Cancellation
    (msg_id: string) (receive_time: time_t) (update_time: time_t) (expiration_time: time_t)
    (msg_location: traffic_location)

definition traffic_point_new ::
  "real \<Rightarrow> real \<Rightarrow> string \<Rightarrow> string \<Rightarrow> string \<Rightarrow> traffic_point" where
  \<comment> \<open>Modelled from the spec: the host's point constructor, absent from the sources;
      \<open>(lon, lat, name, exit_id, table_id) -> point\<close>, an immutable value of its
      arguments.\<close>
  "traffic_point_new lo la name exit_id table_id =
     \<lparr>lon = lo, lat = la, junction_name = name, junction_ref = exit_id, tmc_id = table_id\<rparr>"

definition traffic_location_new ::
  "string option \<Rightarrow> traffic_point \<Rightarrow> traffic_point \<Rightarrow> string \<Rightarrow> string option \<Rightarrow>
   location_dir \<Rightarrow> location_fuzziness \<Rightarrow> location_ramps \<Rightarrow> item_type \<Rightarrow> string option \<Rightarrow>
   string \<Rightarrow> string \<Rightarrow> int \<Rightarrow> traffic_location" where
  \<comment> \<open>Modelled from the spec: the host's location constructor, absent from the sources;
      \<open>(prefix, from, to, area_name, ..., direction, fuzziness, ramps, road_type, ...,
      road_name, table_ref, ...) -> location\<close>. The three arguments the spec leaves
      unnamed are kept under their position.\<close>
  "traffic_location_new pre f t area a5 dir fuzz rmp rt a10 rname tref a13 =
     \<lparr>loc_prefix = pre, from_point = f, to_point = t, area_name = area, arg5 = a5,
      directionality = dir, fuzziness = fuzz, ramps = rmp, road_type = rt, arg10 = a10,
      road_name = rname, table_ref = tref, arg13 = a13\<rparr>"

definition traffic_message_new_single_event ::
  "string \<Rightarrow> time_t \<Rightarrow> time_t \<Rightarrow> time_t \<Rightarrow> int \<Rightarrow> traffic_location \<Rightarrow>
   event_class \<Rightarrow> event_type \<Rightarrow> traffic_message" where
  \<comment> \<open>Modelled from the spec: the host's constructor of a single-event report, absent
      from the sources; it takes the identifier, the first-received, last-updated and
      expiry timestamps, a validity flag, a location and a class/sub-type pair.\<close>
  "traffic_message_new_single_event i rcv upd expi fl loc cls typ =
     Single_event i rcv upd expi fl loc cls typ"

definition traffic_message_new_cancellation ::
  "string \<Rightarrow> time_t \<Rightarrow> time_t \<Rightarrow> time_t \<Rightarrow> traffic_location \<Rightarrow> traffic_message" where
  \<comment> \<open>Modelled from the spec: the host's constructor of a cancellation, absent from the
      sources; a message variant that carries the identifier, the timestamps and the
      location of the withdrawn report and no event classification.\<close>
  "traffic_message_new_cancellation i rcv upd expi loc = Cancellation i rcv upd expi loc"

subsection \<open>The instance\<close>

record traffic_priv =
  nav :: "addr option"
  reports_requested :: c_int

text \<open>
  \<^verbatim>\<open>g_new0(struct traffic_message *, n)\<close>: an array of \<open>n\<close> pointers, all \<^verbatim>\<open>NULL\<close>.
\<close>

definition g_new0_messages :: "nat \<Rightarrow> traffic_message option list" where
  "g_new0_messages n = replicate n None"

text \<open>
  The result of the report generator: \<^verbatim>\<open>NULL\<close>, or a pointer to an array of message
  pointers.
\<close>

type_synonym messages = "traffic_message option list option"

text \<open>
  The generator reads the clock with \<^verbatim>\<open>time(NULL)\<close> at six places of each of its two
  branches. A \<open>clock\<close> gives, for one invocation, the value read at each place, numbered
  0 to 5 in the order of the text; C does not fix the order in which the three reads in
  one argument list happen, and the model does not depend on it.
\<close>

type_synonym clock = "nat \<Rightarrow> time_t"

subsection \<open>The report generator\<close>

definition traffic_dummy_get_messages :: "clock \<Rightarrow> traffic_priv \<Rightarrow> messages \<times> traffic_priv" where
  "traffic_dummy_get_messages time this =
    (let this = this\<lparr>reports_requested := reports_requested this + 1\<rparr> in
     if reports_requested this = 1 then
       (let messages = g_new0_messages 3;
            from = traffic_point_new 11.6208 48.3164 ''Neufahrn'' ''68'' ''12732-4'';
            to = traffic_point_new 11.5893 48.429 ''Allershausen'' ''67'' ''12732'';
            location = traffic_location_new None from to (''N'' @ [CHR 0xC3, CHR 0xBC] @ ''rnberg'')
              None location_dir_one location_fuzziness_low_res location_ramps_none
              type_highway_land None ''A9'' ''58:1'' (- 1);
            messages = messages[0 := Some (traffic_message_new_single_event ''dummy:A9-68-67''
              (time 0) (time 1) (time 2 + 20) 0 location
              event_class_congestion event_congestion_queue)];
            from = traffic_point_new 11.4481 48.1266 (''Gr'' @ [CHR 0xC3, CHR 0xA4] @ ''felfing'')
              ''36b'' ''12961-2'';
            to = traffic_point_new 11.5028 48.1258 (''M'' @ [CHR 0xC3, CHR 0xBC] @ ''nchen-Laim'')
              ''38'' ''12961'';
            location = traffic_location_new None from to (''M'' @ [CHR 0xC3, CHR 0xBC] @ ''nchen'')
              None location_dir_one location_fuzziness_low_res location_ramps_none
              type_highway_land None ''A96'' ''58:1'' (- 1);
            messages = messages[1 := Some (traffic_message_new_single_event ''dummy:A96-36b-38''
              (time 3) (time 4) (time 5 + 20) 0 location
              event_class_congestion event_congestion_slow_traffic)]
        in (Some messages, this))
     else if reports_requested this = 11 then
       (let messages = g_new0_messages 3;
            from = traffic_point_new 11.6208 48.3164 ''Neufahrn'' ''68'' ''12732-4'';
            to = traffic_point_new 11.5893 48.429 ''Allershausen'' ''67'' ''12732'';
            location = traffic_location_new None from to (''N'' @ [CHR 0xC3, CHR 0xBC] @ ''rnberg'')
              None location_dir_one location_fuzziness_low_res location_ramps_none
              type_highway_land None ''A9'' ''58:1'' (- 1);
            messages = messages[0 := Some (traffic_message_new_single_event ''dummy:A9-68-67''
              (time 0 - 10) (time 1) (time 2 + 10) 0 location
              event_class_congestion event_congestion_queue)];
            from = traffic_point_new 11.4481 48.1266 (''Gr'' @ [CHR 0xC3, CHR 0xA4] @ ''felfing'')
              ''36b'' ''12961-2'';
            to = traffic_point_new 11.5028 48.1258 (''M'' @ [CHR 0xC3, CHR 0xBC] @ ''nchen-Laim'')
              ''38'' ''12961'';
            location = traffic_location_new None from to (''M'' @ [CHR 0xC3, CHR 0xBC] @ ''nchen'')
              None location_dir_one location_fuzziness_low_res location_ramps_none
              type_highway_land None ''A96'' ''58:1'' (- 1);
            messages = messages[1 := Some (traffic_message_new_cancellation ''dummy:A96-36b-38''
              (time 3 - 10) (time 4) (time 5 + 10) location)]
        in (Some messages, this))
     else (None, this))"

text \<open>
  The host polls an instance again and again. \<open>poll ts this\<close> makes one call for each
  clock of \<open>ts\<close>, in order, on the same instance, and returns what the calls returned
  and the instance as the last call left it.
\<close>

fun poll :: "clock list \<Rightarrow> traffic_priv \<Rightarrow> messages list \<times> traffic_priv" where
  "poll [] this = ([], this)"
| "poll (t # ts) this =
     (let (r, this) = traffic_dummy_get_messages t this;
          (rs, this) = poll ts this
      in (r # rs, this))"

subsection \<open>The method table and the constructor\<close>

record traffic_methods =
  get_messages :: "(clock \<Rightarrow> traffic_priv \<Rightarrow> messages \<times> traffic_priv) option"

definition traffic_dummy_meth :: traffic_methods where
  "traffic_dummy_meth = \<lparr>get_messages = Some traffic_dummy_get_messages\<rparr>"

text \<open>
  The instances live in the host's memory: \<open>privs\<close> holds the \<^verbatim>\<open>traffic_priv\<close> objects
  allocated so far, and the address of an object is its index. \<open>debug_log\<close> collects what
  the \<^verbatim>\<open>dbg\<close> macro is asked to print.
\<close>

type_synonym dbg_log = "(dbg_level \<times> string) list"

record host_state =
  privs :: "traffic_priv list"
  debug_log :: dbg_log

definition dbg :: "dbg_level \<Rightarrow> string \<Rightarrow> dbg_log \<Rightarrow> dbg_log" where
  "dbg lvl msg l = l @ [(lvl, msg)]"

definition traffic_priv_zero :: traffic_priv where
  "traffic_priv_zero = \<lparr>nav = None, reports_requested = 0\<rparr>"

text \<open>
  \<^verbatim>\<open>g_new0(struct traffic_priv, 1)\<close>: a new object, all of its bytes zero, at an address
  not in use. GLib ends the process when memory runs out, so the call has no failing
  result.
\<close>

definition g_new0_traffic_priv :: "host_state \<Rightarrow> addr \<times> host_state" where
  "g_new0_traffic_priv s = (length (privs s), s\<lparr>privs := privs s @ [traffic_priv_zero]\<rparr>)"

text \<open>
  \<^verbatim>\<open>meth\<close> points to the caller's method table: the model takes what the table holds
  and returns what it holds afterwards, next to the returned pointer.
\<close>

definition traffic_dummy_new ::
  "addr option \<Rightarrow> traffic_methods \<Rightarrow> addr option \<Rightarrow> addr option \<Rightarrow> host_state \<Rightarrow>
   (addr \<times> traffic_methods) \<times> host_state" where
  "traffic_dummy_new navit meth attrs cbl s =
     (let s = s\<lparr>debug_log := dbg lvl_error (''enter'' @ [CHR 0x0A]) (debug_log s)\<rparr>;
          (ret, s) = g_new0_traffic_priv s;
          meth = traffic_dummy_meth
      in ((ret, meth), s))"

text \<open>
  A call of the generator through a pointer: \<^verbatim>\<open>this_->reports_requested++\<close> changes the
  object the pointer refers to, and no other. A pointer to no allocated object has no
  result.
\<close>

definition call_get_messages :: "clock \<Rightarrow> addr \<Rightarrow> host_state \<Rightarrow> (messages \<times> host_state) option" where
  "call_get_messages time this s =
     (if this < length (privs s) then
        (let (r, p) = traffic_dummy_get_messages time (privs s ! this)
         in Some (r, s\<lparr>privs := (privs s)[this := p]\<rparr>))
      else None)"

text \<open>
  A schedule is a list of calls, each on some instance with some clock; \<open>run\<close> makes them
  in order and labels each result with the instance it came from.
\<close>

fun run :: "(addr \<times> clock) list \<Rightarrow> host_state \<Rightarrow> ((addr \<times> messages) list \<times> host_state) option" where
  "run [] s = Some ([], s)"
| "run ((this, t) # cs) s =
     (case call_get_messages t this s of
        None \<Rightarrow> None
      | Some (r, s') \<Rightarrow>
          (case run cs s' of
             None \<Rightarrow> None
           | Some (rs, s'') \<Rightarrow> Some ((this, r) # rs, s'')))"

definition calls_of :: "addr \<Rightarrow> (addr \<times> 'a) list \<Rightarrow> 'a list" where
  "calls_of this cs = map snd (filter (\<lambda>c. fst c = this) cs)"

subsection \<open>Registration\<close>

type_synonym traffic_new =
  "addr option \<Rightarrow> traffic_methods \<Rightarrow> addr option \<Rightarrow> addr option \<Rightarrow> host_state \<Rightarrow>
   (addr \<times> traffic_methods) \<times> host_state"

datatype plugin_category = category_traffic | category_other string

record plugin_state =
  registry :: "plugin_category \<Rightarrow> string \<rightharpoonup> traffic_new"
  plugin_log :: dbg_log

definition plugin_register_category_traffic ::
  "string \<Rightarrow> traffic_new \<Rightarrow> plugin_state \<Rightarrow> plugin_state" where
  \<comment> \<open>Modelled from the spec: the host's registration function, absent from the sources;
      the registry is category-keyed and maps plugin names to constructor functions, and
      this function enters a name into the traffic category.\<close>
  "plugin_register_category_traffic name new s =
     s\<lparr>registry := (registry s)(category_traffic := (registry s category_traffic)(name \<mapsto> new))\<rparr>"

definition plugin_init :: "plugin_state \<Rightarrow> plugin_state" where
  "plugin_init s =
     (let s = s\<lparr>plugin_log := dbg lvl_error (''enter'' @ [CHR 0x0A]) (plugin_log s)\<rparr>
      in plugin_register_category_traffic ''dummy'' traffic_dummy_new s)"

text \<open>
  A clock that stands still while a call runs: every read gives the same time.
\<close>

definition frozen_clock :: "time_t \<Rightarrow> clock" where
  "frozen_clock now = (\<lambda>i. now)"

text \<open>
  A clock given by what its six reads return, place by place. It serves for a clock that
  moves on while a call runs: \<open>six_reads 1000 1001 1001 1001 1001 1001\<close> ticks after
  the first read when the arguments are evaluated from left to right, and
  \<open>six_reads 1001 1000 1000 1001 1001 1001\<close> ticks after the second read when they are
  evaluated from right to left.
\<close>

definition six_reads ::
  "time_t \<Rightarrow> time_t \<Rightarrow> time_t \<Rightarrow> time_t \<Rightarrow> time_t \<Rightarrow> time_t \<Rightarrow> clock" where
  "six_reads r0 r1 r2 r3 r4 r5 =
     (\<lambda>i. if i = 0 then r0 else if i = 1 then r1 else if i = 2 then r2
          else if i = 3 then r3 else if i = 4 then r4 else r5)"

section \<open>Properties\<close>

subsection \<open>One call\<close>

text \<open>
  A call adds one to the counter and changes nothing else of the instance; what it
  returns is decided by the counter after the increment.
\<close>

lemma get_messages_snd:
  "snd (traffic_dummy_get_messages time this) = this\<lparr>reports_requested := reports_requested this + 1\<rparr>"
  by (simp add: traffic_dummy_get_messages_def Let_def)

lemma get_messages_default:
  "reports_requested this + 1 \<noteq> 1 \<Longrightarrow> reports_requested this + 1 \<noteq> 11 \<Longrightarrow>
   fst (traffic_dummy_get_messages time this) = None"
  by (simp add: traffic_dummy_get_messages_def Let_def)

lemma g_new0_messages_3: "g_new0_messages 3 = [None, None, None]"
  by (simp add: g_new0_messages_def numeral_3_eq_3)

lemma get_messages_case_1:
  "reports_requested this + 1 = 1 \<Longrightarrow>
   fst (traffic_dummy_get_messages time this) =
     Some [Some (Single_event ''dummy:A9-68-67'' (time 0) (time 1) (time 2 + 20) 0
             (traffic_location_new None
                (traffic_point_new 11.6208 48.3164 ''Neufahrn'' ''68'' ''12732-4'')
                (traffic_point_new 11.5893 48.429 ''Allershausen'' ''67'' ''12732'')
                (''N'' @ [CHR 0xC3, CHR 0xBC] @ ''rnberg'')
                None location_dir_one location_fuzziness_low_res location_ramps_none
                type_highway_land None ''A9'' ''58:1'' (- 1))
             event_class_congestion event_congestion_queue),
           Some (Single_event ''dummy:A96-36b-38'' (time 3) (time 4) (time 5 + 20) 0
             (traffic_location_new None
                (traffic_point_new 11.4481 48.1266 (''Gr'' @ [CHR 0xC3, CHR 0xA4] @ ''felfing'') ''36b'' ''12961-2'')
                (traffic_point_new 11.5028 48.1258 (''M'' @ [CHR 0xC3, CHR 0xBC] @ ''nchen-Laim'') ''38'' ''12961'')
                (''M'' @ [CHR 0xC3, CHR 0xBC] @ ''nchen'')
                None location_dir_one location_fuzziness_low_res location_ramps_none
                type_highway_land None ''A96'' ''58:1'' (- 1))
             event_class_congestion event_congestion_slow_traffic),
           None]"
  by (simp add: traffic_dummy_get_messages_def Let_def g_new0_messages_3
      traffic_message_new_single_event_def)

lemma get_messages_case_11:
  "reports_requested this + 1 = 11 \<Longrightarrow>
   fst (traffic_dummy_get_messages time this) =
     Some [Some (Single_event ''dummy:A9-68-67'' (time 0 - 10) (time 1) (time 2 + 10) 0
             (traffic_location_new None
                (traffic_point_new 11.6208 48.3164 ''Neufahrn'' ''68'' ''12732-4'')
                (traffic_point_new 11.5893 48.429 ''Allershausen'' ''67'' ''12732'')
                (''N'' @ [CHR 0xC3, CHR 0xBC] @ ''rnberg'')
                None location_dir_one location_fuzziness_low_res location_ramps_none
                type_highway_land None ''A9'' ''58:1'' (- 1))
             event_class_congestion event_congestion_queue),
           Some (Cancellation ''dummy:A96-36b-38'' (time 3 - 10) (time 4) (time 5 + 10)
             (traffic_location_new None
                (traffic_point_new 11.4481 48.1266 (''Gr'' @ [CHR 0xC3, CHR 0xA4] @ ''felfing'') ''36b'' ''12961-2'')
                (traffic_point_new 11.5028 48.1258 (''M'' @ [CHR 0xC3, CHR 0xBC] @ ''nchen-Laim'') ''38'' ''12961'')
                (''M'' @ [CHR 0xC3, CHR 0xBC] @ ''nchen'')
                None location_dir_one location_fuzziness_low_res location_ramps_none
                type_highway_land None ''A96'' ''58:1'' (- 1))),
           None]"
  by (simp add: traffic_dummy_get_messages_def Let_def g_new0_messages_3
      traffic_message_new_single_event_def traffic_message_new_cancellation_def)

lemma poll_length: "length (fst (poll ts this)) = length ts"
  by (induction ts arbitrary: this) (auto simp: split_beta Let_def)

lemma poll_snd:
  "snd (poll ts this) = this\<lparr>reports_requested := reports_requested this + of_nat (length ts)\<rparr>"
proof (induction ts arbitrary: this)
  case Nil
  show ?case by simp
next
  case (Cons t ts)
  have "snd (poll (t # ts) this) = snd (poll ts (snd (traffic_dummy_get_messages t this)))"
    by (simp add: split_beta Let_def)
  then show ?case
    by (simp add: Cons.IH get_messages_snd add.assoc add.commute)
qed


lemma poll_nth:
  "k < length ts \<Longrightarrow>
   fst (poll ts this) ! k =
     fst (traffic_dummy_get_messages (ts ! k)
            (this\<lparr>reports_requested := reports_requested this + of_nat k\<rparr>))"
proof (induction ts arbitrary: this k)
  case Nil
  then show ?case by simp
next
  case (Cons t ts)
  show ?case
  proof (cases k)
    case 0
    then show ?thesis by (simp add: split_beta Let_def)
  next
    case (Suc j)
    with Cons.prems have j: "j < length ts" by simp
    have "fst (poll (t # ts) this) ! k = fst (poll ts (snd (traffic_dummy_get_messages t this))) ! j"
      by (simp add: split_beta Let_def Suc)
    also have "\<dots> = fst (traffic_dummy_get_messages (ts ! j)
        (this\<lparr>reports_requested := reports_requested this + 1 + of_nat j\<rparr>))"
      by (simp add: Cons.IH [OF j] get_messages_snd)
    finally show ?thesis by (simp add: Suc add.assoc)
  qed
qed

lemma new_result:
  "traffic_dummy_new navit meth attrs cbl s =
     ((length (privs s), traffic_dummy_meth),
      s\<lparr>privs := privs s @ [traffic_priv_zero],
        debug_log := debug_log s @ [(lvl_error, ''enter'' @ [CHR 0x0A])]\<rparr>)"
  by (simp add: traffic_dummy_new_def g_new0_traffic_priv_def dbg_def Let_def)

lemma call_valid:
  "this < length (privs s) \<Longrightarrow>
   call_get_messages time this s =
     Some (fst (traffic_dummy_get_messages time (privs s ! this)),
           s\<lparr>privs := (privs s)[this := snd (traffic_dummy_get_messages time (privs s ! this))]\<rparr>)"
  by (simp add: call_get_messages_def split_beta)

lemma calls_of_Cons:
  "calls_of a ((b, x) # cs) = (if b = a then x # calls_of a cs else calls_of a cs)"
  by (simp add: calls_of_def)

lemma run_instances:
  "\<forall>c \<in> set cs. fst c < length (privs s) \<Longrightarrow>
   \<exists>rs s'. run cs s = Some (rs, s') \<and> length (privs s') = length (privs s) \<and>
     debug_log s' = debug_log s \<and> map fst rs = map fst cs \<and>
     (\<forall>a < length (privs s).
        calls_of a rs = fst (poll (calls_of a cs) (privs s ! a)) \<and>
        privs s' ! a = snd (poll (calls_of a cs) (privs s ! a)))"
proof (induction cs arbitrary: s)
  case Nil
  show ?case by (simp add: calls_of_def)
next
  case (Cons c cs)
  obtain this t where c: "c = (this, t)" by (cases c)
  from Cons.prems c have v: "this < length (privs s)" by simp
  let ?r = "fst (traffic_dummy_get_messages t (privs s ! this))"
  let ?p = "snd (traffic_dummy_get_messages t (privs s ! this))"
  let ?s1 = "s\<lparr>privs := (privs s)[this := ?p]\<rparr>"
  have call: "call_get_messages t this s = Some (?r, ?s1)" by (rule call_valid [OF v])
  from Cons.prems have "\<forall>c \<in> set cs. fst c < length (privs ?s1)" by simp
  from Cons.IH [OF this] obtain rs s' where
    run: "run cs ?s1 = Some (rs, s')" and
    len: "length (privs s') = length (privs ?s1)" and
    lg: "debug_log s' = debug_log ?s1" and
    fs: "map fst rs = map fst cs" and
    each: "\<forall>a < length (privs ?s1).
        calls_of a rs = fst (poll (calls_of a cs) (privs ?s1 ! a)) \<and>
        privs s' ! a = snd (poll (calls_of a cs) (privs ?s1 ! a))"
    by blast
  have r: "run (c # cs) s = Some ((this, ?r) # rs, s')"
    by (simp add: c call run)
  have "\<forall>a < length (privs s).
        calls_of a ((this, ?r) # rs) = fst (poll (calls_of a (c # cs)) (privs s ! a)) \<and>
        privs s' ! a = snd (poll (calls_of a (c # cs)) (privs s ! a))"
  proof (intro allI impI)
    fix a assume a: "a < length (privs s)"
    with each have e: "calls_of a rs = fst (poll (calls_of a cs) (privs ?s1 ! a))"
      "privs s' ! a = snd (poll (calls_of a cs) (privs ?s1 ! a))" by simp_all
    show "calls_of a ((this, ?r) # rs) = fst (poll (calls_of a (c # cs)) (privs s ! a)) \<and>
        privs s' ! a = snd (poll (calls_of a (c # cs)) (privs s ! a))"
    proof (cases "a = this")
      case True
      with e v show ?thesis by (simp add: c calls_of_Cons split_beta Let_def)
    next
      case False
      with e a show ?thesis by (simp add: c calls_of_Cons)
    qed
  qed
  with r len lg fs show ?case by (simp add: c)
qed

lemma new_instance:
  assumes "traffic_dummy_new navit meth attrs cbl s = ((this, meth'), s')"
  shows "this = length (privs s)" and "this < length (privs s')"
    and "privs s' ! this = traffic_priv_zero" and "privs s' = privs s @ [traffic_priv_zero]"
    and "meth' = traffic_dummy_meth"
  using assms by (auto simp: new_result)

lemma run_single:
  "this < length (privs s) \<Longrightarrow>
   run (map (Pair this) ts) s =
     Some (map (Pair this) (fst (poll ts (privs s ! this))),
           s\<lparr>privs := (privs s)[this := snd (poll ts (privs s ! this))]\<rparr>)"
proof (induction ts arbitrary: s)
  case Nil
  then show ?case by simp
next
  case (Cons t ts)
  let ?s1 = "s\<lparr>privs := (privs s)[this := snd (traffic_dummy_get_messages t (privs s ! this))]\<rparr>"
  from Cons.prems have "this < length (privs ?s1)" by simp
  from Cons.IH [OF this] Cons.prems show ?case
    by (simp add: call_valid split_beta Let_def)
qed

lemma first_and_eleventh:
  assumes "reports_requested p + 1 = 1" and "reports_requested q + 1 = 11"
  shows "\<exists>a0 a1 m0 m1.
    fst (traffic_dummy_get_messages t1 p) = Some [Some a0, Some a1, None] \<and>
    fst (traffic_dummy_get_messages time q) = Some [Some m0, Some m1, None] \<and>
    is_Single_event m0 \<and> msg_id m0 = ''dummy:A9-68-67'' \<and> msg_id m0 = msg_id a0 \<and>
    msg_location m0 = msg_location a0 \<and>
    msg_class m0 = event_class_congestion \<and> msg_type m0 = event_congestion_queue \<and>
    receive_time m0 = time 0 - 10 \<and> update_time m0 = time 1 \<and>
    expiration_time m0 = time 2 + 10 \<and>
    m1 = Cancellation ''dummy:A96-36b-38'' (time 3 - 10) (time 4) (time 5 + 10)
           (msg_location a1) \<and>
    msg_id m1 = msg_id a1 \<and> msg_location m1 = msg_location a1"
  by (simp add: get_messages_case_1 [OF assms(1)] get_messages_case_11 [OF assms(2)])

subsection \<open>The counter as a 32-bit integer\<close>

lemma counter_eq_iff:
  "((of_nat c :: c_int) = of_nat d) = (c mod 2 ^ 32 = d mod 2 ^ 32)"
  by (simp add: word_of_nat_eq_iff take_bit_eq_mod)

lemma counter_1_iff: "((of_nat c :: c_int) = 1) = (c mod 2 ^ 32 = 1)"
  using counter_eq_iff [of c 1] by simp

lemma counter_11_iff: "((of_nat c :: c_int) = 11) = (c mod 2 ^ 32 = 11)"
  using counter_eq_iff [of c 11] by simp

lemma counter_unat: "unat (of_nat k :: c_int) = k mod 2 ^ 32"
  by (simp add: unat_of_nat)

lemma counter_sint: "k < 2 ^ 31 \<Longrightarrow> sint (of_nat k :: c_int) = int k"
  by (simp add: signed_of_nat signed_take_bit_int_eq_self)

lemma poll_zero_nth:
  "k < length ts \<Longrightarrow>
   fst (poll ts traffic_priv_zero) ! k =
     fst (traffic_dummy_get_messages (ts ! k) (traffic_priv_zero\<lparr>reports_requested := of_nat k\<rparr>))"
  by (simp add: poll_nth traffic_priv_zero_def)

lemma get_messages_present:
  "(fst (traffic_dummy_get_messages time this) \<noteq> None) =
   (reports_requested this + 1 = 1 \<or> reports_requested this + 1 = 11)"
proof (cases "reports_requested this + 1 = 1")
  case True
  from get_messages_case_1 [OF True, of time] True show ?thesis by simp
next
  case n1: False
  show ?thesis
  proof (cases "reports_requested this + 1 = 11")
    case True
    from get_messages_case_11 [OF True, of time] True show ?thesis by simp
  next
    case False
    from get_messages_default [OF n1 False, of time] n1 False show ?thesis by simp
  qed
qed

lemma call_present_iff:
  assumes "1 \<le> c" and "c \<le> length ts"
  shows "(fst (poll ts traffic_priv_zero) ! (c - 1) \<noteq> None) = (c mod 2 ^ 32 = 1 \<or> c mod 2 ^ 32 = 11)"
proof -
  from assms have k: "c - 1 < length ts" by simp
  let ?p = "traffic_priv_zero\<lparr>reports_requested := of_nat (c - 1)\<rparr>"
  from assms(1) have "(of_nat (c - 1) :: c_int) + 1 = of_nat c"
    by (simp add: of_nat_diff)
  then have "reports_requested ?p + 1 = of_nat c" by simp
  then have "(fst (traffic_dummy_get_messages (ts ! (c - 1)) ?p) \<noteq> None) =
      ((of_nat c :: c_int) = 1 \<or> (of_nat c :: c_int) = 11)"
    by (simp only: get_messages_present)
  then show ?thesis
    by (simp only: poll_zero_nth [OF k] counter_1_iff counter_11_iff)
qed

lemma get_messages_shape:
  assumes "fst (traffic_dummy_get_messages time this) = Some arr"
  shows "reports_requested this + 1 = 1 \<or> reports_requested this + 1 = 11"
  using assms get_messages_present [of time this] by simp

subsection \<open>The first and the eleventh call\<close>

text \<open>
  On an instance that \<open>traffic_dummy_new\<close> has just created, the first call of the
  generator returns an array of exactly two messages and the terminating \<^verbatim>\<open>NULL\<close>: a
  single-event report for the A9 with identifier \<^verbatim>\<open>dummy:A9-68-67\<close>, class congestion
  and type queue, and one for the A96 with identifier \<^verbatim>\<open>dummy:A96-36b-38\<close>, class
  congestion and type slow traffic. Each of the six timestamps comes from a clock read
  of its own: nothing is read once and used twice.
\<close>

lemma first_call_on_new_instance:
  assumes "traffic_dummy_new navit meth attrs cbl s = ((this, meth'), s')"
  shows "\<exists>m0 m1 s''.
    call_get_messages time this s' = Some (Some [Some m0, Some m1, None], s'') \<and>
    is_Single_event m0 \<and> msg_id m0 = ''dummy:A9-68-67'' \<and>
    road_name (msg_location m0) = ''A9'' \<and>
    msg_class m0 = event_class_congestion \<and> msg_type m0 = event_congestion_queue \<and>
    receive_time m0 = time 0 \<and> update_time m0 = time 1 \<and>
    expiration_time m0 = time 2 + 20 \<and>
    is_Single_event m1 \<and> msg_id m1 = ''dummy:A96-36b-38'' \<and>
    road_name (msg_location m1) = ''A96'' \<and>
    msg_class m1 = event_class_congestion \<and> msg_type m1 = event_congestion_slow_traffic \<and>
    receive_time m1 = time 3 \<and> update_time m1 = time 4 \<and>
    expiration_time m1 = time 5 + 20"
proof -
  note inst = new_instance [OF assms(1)]
  have "reports_requested (privs s' ! this) + 1 = 1"
    by (simp add: inst(3) traffic_priv_zero_def)
  note r = get_messages_case_1 [OF this, of time]
  show ?thesis
    by (simp add: call_valid [OF inst(2)] r traffic_location_new_def)
qed

text \<open>
  C1: the claim is that the first call on a new instance returns the A9 queue report and
  the A96 slow-traffic report with first-received and last-updated both equal to the
  time of the call and the expiry 20 seconds later. The generator returns the two
  reports, but it reads the clock anew for every timestamp. When the clock moves from
  1000 to 1001 during the call, the A9 report is first received at 1000, last updated
  at 1001 and expires at 1021 if the arguments are evaluated from left to right, and it
  is first received at 1001, last updated at 1000 and expires at 1020 if they are
  evaluated from right to left: either way the first two timestamps differ.
\<close>

theorem first_call_ticking_clock:
  "traffic_dummy_new None \<lparr>get_messages = None\<rparr> None None \<lparr>privs = [], debug_log = []\<rparr> =
     ((0, traffic_dummy_meth),
      \<lparr>privs = [traffic_priv_zero], debug_log = [(lvl_error, ''enter'' @ [CHR 0x0A])]\<rparr>) \<and>
   (\<exists>m0 m1 s''.
      call_get_messages (six_reads 1000 1001 1001 1001 1001 1001) 0
        \<lparr>privs = [traffic_priv_zero], debug_log = [(lvl_error, ''enter'' @ [CHR 0x0A])]\<rparr> =
        Some (Some [Some m0, Some m1, None], s'') \<and>
      msg_id m0 = ''dummy:A9-68-67'' \<and> msg_id m1 = ''dummy:A96-36b-38'' \<and>
      receive_time m0 = 1000 \<and> update_time m0 = 1001 \<and>
      receive_time m0 \<noteq> update_time m0 \<and> expiration_time m0 = 1021) \<and>
   (\<exists>m0 m1 s''.
      call_get_messages (six_reads 1001 1000 1000 1001 1001 1001) 0
        \<lparr>privs = [traffic_priv_zero], debug_log = [(lvl_error, ''enter'' @ [CHR 0x0A])]\<rparr> =
        Some (Some [Some m0, Some m1, None], s'') \<and>
      msg_id m0 = ''dummy:A9-68-67'' \<and> msg_id m1 = ''dummy:A96-36b-38'' \<and>
      receive_time m0 = 1001 \<and> update_time m0 = 1000 \<and>
      receive_time m0 \<noteq> update_time m0 \<and> expiration_time m0 = 1020)"
proof -
  have h1: "traffic_dummy_new None \<lparr>get_messages = None\<rparr> None None \<lparr>privs = [], debug_log = []\<rparr> =
     ((0, traffic_dummy_meth),
      \<lparr>privs = [traffic_priv_zero], debug_log = [(lvl_error, ''enter'' @ [CHR 0x0A])]\<rparr>)"
    by (simp add: new_result)
  from first_call_on_new_instance [OF h1, of "six_reads 1000 1001 1001 1001 1001 1001"]
  have left: "\<exists>m0 m1 s''.
      call_get_messages (six_reads 1000 1001 1001 1001 1001 1001) 0
        \<lparr>privs = [traffic_priv_zero], debug_log = [(lvl_error, ''enter'' @ [CHR 0x0A])]\<rparr> =
        Some (Some [Some m0, Some m1, None], s'') \<and>
      msg_id m0 = ''dummy:A9-68-67'' \<and> msg_id m1 = ''dummy:A96-36b-38'' \<and>
      receive_time m0 = 1000 \<and> update_time m0 = 1001 \<and>
      receive_time m0 \<noteq> update_time m0 \<and> expiration_time m0 = 1021"
    by (fastforce simp: six_reads_def)
  from first_call_on_new_instance [OF h1, of "six_reads 1001 1000 1000 1001 1001 1001"]
  have right: "\<exists>m0 m1 s''.
      call_get_messages (six_reads 1001 1000 1000 1001 1001 1001) 0
        \<lparr>privs = [traffic_priv_zero], debug_log = [(lvl_error, ''enter'' @ [CHR 0x0A])]\<rparr> =
        Some (Some [Some m0, Some m1, None], s'') \<and>
      msg_id m0 = ''dummy:A9-68-67'' \<and> msg_id m1 = ''dummy:A96-36b-38'' \<and>
      receive_time m0 = 1001 \<and> update_time m0 = 1000 \<and>
      receive_time m0 \<noteq> update_time m0 \<and> expiration_time m0 = 1020"
    by (fastforce simp: six_reads_def)
  from h1 left right show ?thesis by blast
qed

text \<open>
  After ten calls on a newly created instance, whatever their clocks, the eleventh call
  returns an array of exactly two messages and the terminating \<^verbatim>\<open>NULL\<close>. The first is
  a single-event report with the identifier and the location of the first message of
  the first call; the second is a cancellation with the identifier and the location of
  the second message of the first call, and a cancellation has no event class or type.
  Again each timestamp comes from a clock read of its own, ten seconds taken off the
  first of each message and ten seconds added to the third.
\<close>

lemma eleventh_call_on_new_instance:
  assumes "traffic_dummy_new navit meth attrs cbl s = ((this, meth'), s')"
    and "length ts = 10"
  shows "\<exists>rs s10 a0 a1 m0 m1 s11.
    run (map (Pair this) ts) s' = Some (rs, s10) \<and>
    rs ! 0 = (this, Some [Some a0, Some a1, None]) \<and>
    call_get_messages time this s10 = Some (Some [Some m0, Some m1, None], s11) \<and>
    is_Single_event m0 \<and> msg_id m0 = ''dummy:A9-68-67'' \<and> msg_id m0 = msg_id a0 \<and>
    msg_location m0 = msg_location a0 \<and>
    msg_class m0 = event_class_congestion \<and> msg_type m0 = event_congestion_queue \<and>
    receive_time m0 = time 0 - 10 \<and> update_time m0 = time 1 \<and>
    expiration_time m0 = time 2 + 10 \<and>
    m1 = Cancellation ''dummy:A96-36b-38'' (time 3 - 10) (time 4) (time 5 + 10)
           (msg_location a1) \<and>
    msg_id m1 = msg_id a1 \<and> msg_location m1 = msg_location a1"
proof -
  note inst = new_instance [OF assms(1)]
  define q where "q = snd (poll ts traffic_priv_zero)"
  define s10 where "s10 = s'\<lparr>privs := (privs s')[this := q]\<rparr>"
  define rs where "rs = map (Pair this) (fst (poll ts traffic_priv_zero))"
  define s11 where
    "s11 = s10\<lparr>privs := (privs s10)[this := snd (traffic_dummy_get_messages time q)]\<rparr>"
  have run: "run (map (Pair this) ts) s' = Some (rs, s10)"
    using run_single [OF inst(2), of ts] by (simp add: inst(3) rs_def s10_def q_def)
  from assms(2) have k: "0 < length ts" by simp
  have rs0: "rs ! 0 = (this, fst (traffic_dummy_get_messages (ts ! 0) traffic_priv_zero))"
    using k poll_nth [OF k, of traffic_priv_zero]
    by (simp add: rs_def poll_length traffic_priv_zero_def)
  have c1: "reports_requested traffic_priv_zero + 1 = 1"
    by (simp add: traffic_priv_zero_def)
  have c11: "reports_requested q + 1 = 11"
    by (simp add: q_def poll_snd assms(2) traffic_priv_zero_def)
  have "this < length (privs s10)" "privs s10 ! this = q"
    using inst(2) by (simp_all add: s10_def)
  then have call: "call_get_messages time this s10 =
      Some (fst (traffic_dummy_get_messages time q), s11)"
    by (simp add: call_valid s11_def)
  from first_and_eleventh [OF c1 c11, of "ts ! 0" time] run rs0 call
  show ?thesis by metis
qed

text \<open>
  C2: the claim is that the eleventh call returns an update of the A9 report, first
  received 10 seconds before its last update and expiring 10 seconds after it, and a
  cancellation of the A96 report. The generator returns the two messages, with the
  identifiers and locations of the first call, but it reads the clock anew for every
  timestamp. When the clock moves from 1000 to 1001 during the call, the A9 update is
  first received at 990 and last updated at 1001, 11 seconds later, if the arguments
  are evaluated from left to right, and first received at 991 and last updated at 1000,
  9 seconds later, if they are evaluated from right to left: either way not 10.
\<close>

theorem eleventh_call_ticking_clock:
  "traffic_dummy_new None \<lparr>get_messages = None\<rparr> None None \<lparr>privs = [], debug_log = []\<rparr> =
     ((0, traffic_dummy_meth),
      \<lparr>privs = [traffic_priv_zero], debug_log = [(lvl_error, ''enter'' @ [CHR 0x0A])]\<rparr>) \<and>
   (\<exists>rs s10 a0 a1 m0 m1 s11.
      run (map (Pair 0) (replicate 10 (frozen_clock 990)))
        \<lparr>privs = [traffic_priv_zero], debug_log = [(lvl_error, ''enter'' @ [CHR 0x0A])]\<rparr> =
        Some (rs, s10) \<and>
      rs ! 0 = (0, Some [Some a0, Some a1, None]) \<and>
      call_get_messages (six_reads 1000 1001 1001 1001 1001 1001) 0 s10 =
        Some (Some [Some m0, Some m1, None], s11) \<and>
      msg_id m0 = msg_id a0 \<and> msg_location m0 = msg_location a0 \<and>
      receive_time m0 = 990 \<and> update_time m0 = 1001 \<and>
      update_time m0 - receive_time m0 = 11 \<and> expiration_time m0 = 1011 \<and>
      m1 = Cancellation ''dummy:A96-36b-38'' 991 1001 1011 (msg_location a1)) \<and>
   (\<exists>rs s10 a0 a1 m0 m1 s11.
      run (map (Pair 0) (replicate 10 (frozen_clock 990)))
        \<lparr>privs = [traffic_priv_zero], debug_log = [(lvl_error, ''enter'' @ [CHR 0x0A])]\<rparr> =
        Some (rs, s10) \<and>
      rs ! 0 = (0, Some [Some a0, Some a1, None]) \<and>
      call_get_messages (six_reads 1001 1000 1000 1001 1001 1001) 0 s10 =
        Some (Some [Some m0, Some m1, None], s11) \<and>
      msg_id m0 = msg_id a0 \<and> msg_location m0 = msg_location a0 \<and>
      receive_time m0 = 991 \<and> update_time m0 = 1000 \<and>
      update_time m0 - receive_time m0 = 9 \<and> expiration_time m0 = 1010 \<and>
      m1 = Cancellation ''dummy:A96-36b-38'' 991 1001 1011 (msg_location a1))"
proof -
  have h1: "traffic_dummy_new None \<lparr>get_messages = None\<rparr> None None \<lparr>privs = [], debug_log = []\<rparr> =
     ((0, traffic_dummy_meth),
      \<lparr>privs = [traffic_priv_zero], debug_log = [(lvl_error, ''enter'' @ [CHR 0x0A])]\<rparr>)"
    by (simp add: new_result)
  have h2: "length (replicate 10 (frozen_clock 990)) = 10" by simp
  from eleventh_call_on_new_instance [OF h1 h2, of "six_reads 1000 1001 1001 1001 1001 1001"]
  obtain rs s10 a0 a1 m0 m1 s11 where
    "run (map (Pair 0) (replicate 10 (frozen_clock 990)))
        \<lparr>privs = [traffic_priv_zero], debug_log = [(lvl_error, ''enter'' @ [CHR 0x0A])]\<rparr> =
        Some (rs, s10)"
    "rs ! 0 = (0, Some [Some a0, Some a1, None])"
    "call_get_messages (six_reads 1000 1001 1001 1001 1001 1001) 0 s10 =
        Some (Some [Some m0, Some m1, None], s11)"
    "msg_id m0 = msg_id a0" "msg_location m0 = msg_location a0"
    "receive_time m0 = six_reads 1000 1001 1001 1001 1001 1001 0 - 10"
    "update_time m0 = six_reads 1000 1001 1001 1001 1001 1001 1"
    "expiration_time m0 = six_reads 1000 1001 1001 1001 1001 1001 2 + 10"
    "m1 = Cancellation ''dummy:A96-36b-38'' (six_reads 1000 1001 1001 1001 1001 1001 3 - 10)
           (six_reads 1000 1001 1001 1001 1001 1001 4) (six_reads 1000 1001 1001 1001 1001 1001 5 + 10) (msg_location a1)"
    by blast
  then have left: "\<exists>rs s10 a0 a1 m0 m1 s11.
      run (map (Pair 0) (replicate 10 (frozen_clock 990)))
        \<lparr>privs = [traffic_priv_zero], debug_log = [(lvl_error, ''enter'' @ [CHR 0x0A])]\<rparr> =
        Some (rs, s10) \<and>
      rs ! 0 = (0, Some [Some a0, Some a1, None]) \<and>
      call_get_messages (six_reads 1000 1001 1001 1001 1001 1001) 0 s10 =
        Some (Some [Some m0, Some m1, None], s11) \<and>
      msg_id m0 = msg_id a0 \<and> msg_location m0 = msg_location a0 \<and>
      receive_time m0 = 990 \<and> update_time m0 = 1001 \<and>
      update_time m0 - receive_time m0 = 11 \<and> expiration_time m0 = 1011 \<and>
      m1 = Cancellation ''dummy:A96-36b-38'' 991 1001 1011 (msg_location a1)"
    by (intro exI [of _ rs] exI [of _ s10] exI [of _ a0] exI [of _ a1] exI [of _ m0]
        exI [of _ m1] exI [of _ s11]) (simp add: six_reads_def)
  from eleventh_call_on_new_instance [OF h1 h2, of "six_reads 1001 1000 1000 1001 1001 1001"]
  obtain rs s10 a0 a1 m0 m1 s11 where
    "run (map (Pair 0) (replicate 10 (frozen_clock 990)))
        \<lparr>privs = [traffic_priv_zero], debug_log = [(lvl_error, ''enter'' @ [CHR 0x0A])]\<rparr> =
        Some (rs, s10)"
    "rs ! 0 = (0, Some [Some a0, Some a1, None])"
    "call_get_messages (six_reads 1001 1000 1000 1001 1001 1001) 0 s10 =
        Some (Some [Some m0, Some m1, None], s11)"
    "msg_id m0 = msg_id a0" "msg_location m0 = msg_location a0"
    "receive_time m0 = six_reads 1001 1000 1000 1001 1001 1001 0 - 10"
    "update_time m0 = six_reads 1001 1000 1000 1001 1001 1001 1"
    "expiration_time m0 = six_reads 1001 1000 1000 1001 1001 1001 2 + 10"
    "m1 = Cancellation ''dummy:A96-36b-38'' (six_reads 1001 1000 1000 1001 1001 1001 3 - 10)
           (six_reads 1001 1000 1000 1001 1001 1001 4) (six_reads 1001 1000 1000 1001 1001 1001 5 + 10) (msg_location a1)"
    by blast
  then have right: "\<exists>rs s10 a0 a1 m0 m1 s11.
      run (map (Pair 0) (replicate 10 (frozen_clock 990)))
        \<lparr>privs = [traffic_priv_zero], debug_log = [(lvl_error, ''enter'' @ [CHR 0x0A])]\<rparr> =
        Some (rs, s10) \<and>
      rs ! 0 = (0, Some [Some a0, Some a1, None]) \<and>
      call_get_messages (six_reads 1001 1000 1000 1001 1001 1001) 0 s10 =
        Some (Some [Some m0, Some m1, None], s11) \<and>
      msg_id m0 = msg_id a0 \<and> msg_location m0 = msg_location a0 \<and>
      receive_time m0 = 991 \<and> update_time m0 = 1000 \<and>
      update_time m0 - receive_time m0 = 9 \<and> expiration_time m0 = 1010 \<and>
      m1 = Cancellation ''dummy:A96-36b-38'' 991 1001 1011 (msg_location a1)"
    by (intro exI [of _ rs] exI [of _ s10] exI [of _ a0] exI [of _ a1] exI [of _ m0]
        exI [of _ m1] exI [of _ s11]) (simp add: six_reads_def)
  from h1 left right show ?thesis by blast
qed

subsection \<open>The other calls and the counter\<close>

text \<open>
  A call whose counter after the increment is neither 1 nor 11 returns \<^verbatim>\<open>NULL\<close>, not
  an empty array; that holds in particular when the counter read as a signed integer is
  at least 2 and not 11. Counted from the creation of the instance, these are the calls
  whose number, taken modulo \<open>2 ^ 32\<close>, is neither 1 nor 11: calls 2 to 10 and the calls
  from 12 up to \<open>2 ^ 32\<close>.
\<close>

lemma absent_unless_counter_is_1_or_11:
  "(reports_requested this + 1 \<noteq> 1 \<and> reports_requested this + 1 \<noteq> 11 \<longrightarrow>
      fst (traffic_dummy_get_messages time this) = None) \<and>
   (2 \<le> sint (reports_requested this + 1) \<and> sint (reports_requested this + 1) \<noteq> 11 \<longrightarrow>
      fst (traffic_dummy_get_messages time this) = None) \<and>
   (1 \<le> c \<and> c \<le> length ts \<and> c mod 2 ^ 32 \<noteq> 1 \<and> c mod 2 ^ 32 \<noteq> 11 \<longrightarrow>
      fst (poll ts traffic_priv_zero) ! (c - 1) = None)"
proof (intro conjI impI)
  assume "reports_requested this + 1 \<noteq> 1 \<and> reports_requested this + 1 \<noteq> 11"
  then have "reports_requested this + 1 \<noteq> 1" "reports_requested this + 1 \<noteq> 11"
    by blast+
  then show "fst (traffic_dummy_get_messages time this) = None"
    by (rule get_messages_default)
next
  assume a: "2 \<le> sint (reports_requested this + 1) \<and> sint (reports_requested this + 1) \<noteq> 11"
  have "reports_requested this + 1 \<noteq> 1"
  proof
    assume "reports_requested this + 1 = 1"
    then have "sint (reports_requested this + 1) = 1" by simp
    with a show False by simp
  qed
  moreover have "reports_requested this + 1 \<noteq> 11"
  proof
    assume "reports_requested this + 1 = 11"
    then have "sint (reports_requested this + 1) = 11" by simp
    with a show False by simp
  qed
  ultimately show "fst (traffic_dummy_get_messages time this) = None"
    by (rule get_messages_default)
next
  assume a: "1 \<le> c \<and> c \<le> length ts \<and> c mod 2 ^ 32 \<noteq> 1 \<and> c mod 2 ^ 32 \<noteq> 11"
  then have "1 \<le> c" "c \<le> length ts" by simp_all
  from call_present_iff [OF this] a
  show "fst (poll ts traffic_priv_zero) ! (c - 1) = None" by simp
qed

text \<open>
  C3: the claim is that every call other than the first and the eleventh returns
  \<^verbatim>\<open>NULL\<close>, for every call number from 12 on, forever. The generator does not keep
  to it: nothing stops the counter at the end of its range, and call number
  \<open>2 ^ 32 + 1\<close> on a new instance finds the counter at 1 again and returns the two
  reports of the first call once more.
\<close>

theorem call_after_wrap_reports_again:
  "\<exists>m0 m1.
     fst (poll (replicate 4294967297 (frozen_clock 0)) traffic_priv_zero) ! 4294967296 =
       Some [Some m0, Some m1, None] \<and>
     is_Single_event m0 \<and> msg_id m0 = ''dummy:A9-68-67'' \<and>
     is_Single_event m1 \<and> msg_id m1 = ''dummy:A96-36b-38''"
proof -
  have k: "4294967296 < length (replicate 4294967297 (frozen_clock 0))" by simp
  have c: "reports_requested
      (traffic_priv_zero\<lparr>reports_requested := of_nat 4294967296\<rparr>) + 1 = 1"
    by simp
  show ?thesis
    unfolding poll_zero_nth [OF k] get_messages_case_1 [OF c] by simp
qed

text \<open>
  A newly created instance has the counter 0; a call adds exactly one to the counter,
  before it branches, and changes nothing else; after \<open>k\<close> calls the counter holds \<open>k\<close>
  as a 32-bit integer, which is \<open>k\<close> itself while \<open>k < 2 ^ 31\<close>; the call after \<open>k\<close>
  calls returns what the generator returns on a counter of \<open>k\<close> before the increment,
  so it branches on \<open>k + 1\<close>; and the tenth call returns \<^verbatim>\<open>NULL\<close> while the eleventh
  returns messages.
\<close>

lemma counter_counts_calls_modulo:
  assumes "traffic_dummy_new navit meth attrs cbl s = ((this, meth'), s')"
  shows "reports_requested (privs s' ! this) = 0 \<and>
    snd (traffic_dummy_get_messages time p) = p\<lparr>reports_requested := reports_requested p + 1\<rparr> \<and>
    reports_requested (snd (poll ts (privs s' ! this))) = of_nat (length ts) \<and>
    (length ts < 2 ^ 31 \<longrightarrow>
       sint (reports_requested (snd (poll ts (privs s' ! this)))) = int (length ts)) \<and>
    (k < length ts \<longrightarrow>
       fst (poll ts (privs s' ! this)) ! k =
         fst (traffic_dummy_get_messages (ts ! k)
                (traffic_priv_zero\<lparr>reports_requested := of_nat k\<rparr>))) \<and>
    (11 \<le> length ts \<longrightarrow>
       fst (poll ts (privs s' ! this)) ! 9 = None \<and>
       fst (poll ts (privs s' ! this)) ! 10 \<noteq> None)"
proof -
  note inst = new_instance [OF assms]
  have c: "reports_requested (snd (poll ts traffic_priv_zero)) = of_nat (length ts)"
    by (simp add: poll_snd traffic_priv_zero_def)
  have tenth: "fst (poll ts traffic_priv_zero) ! 9 = None"
    and eleventh: "fst (poll ts traffic_priv_zero) ! 10 \<noteq> None" if "11 \<le> length ts"
  proof -
    from that have "1 \<le> (10::nat)" "10 \<le> length ts" "1 \<le> (11::nat)" "11 \<le> length ts"
      by simp_all
    from call_present_iff [OF this(1,2)] call_present_iff [OF this(3,4)]
    show "fst (poll ts traffic_priv_zero) ! 9 = None"
      and "fst (poll ts traffic_priv_zero) ! 10 \<noteq> None" by simp_all
  qed
  have "reports_requested traffic_priv_zero = 0"
    by (simp add: traffic_priv_zero_def)
  moreover have "snd (traffic_dummy_get_messages time p) =
      p\<lparr>reports_requested := reports_requested p + 1\<rparr>"
    by (rule get_messages_snd)
  moreover have "length ts < 2 ^ 31 \<longrightarrow>
      sint (reports_requested (snd (poll ts traffic_priv_zero))) = int (length ts)"
    by (simp add: c counter_sint)
  moreover have "k < length ts \<longrightarrow>
      fst (poll ts traffic_priv_zero) ! k =
        fst (traffic_dummy_get_messages (ts ! k)
               (traffic_priv_zero\<lparr>reports_requested := of_nat k\<rparr>))"
    by (simp add: poll_zero_nth)
  moreover have "11 \<le> length ts \<longrightarrow>
      fst (poll ts traffic_priv_zero) ! 9 = None \<and>
      fst (poll ts traffic_priv_zero) ! 10 \<noteq> None"
    using tenth eleventh by blast
  ultimately show ?thesis
    unfolding inst(3) using c by blast
qed

text \<open>
  C4: the claim is that the counter starts at 0, grows by one with every call, and so
  holds \<open>k\<close> after \<open>k\<close> calls. The generator does not keep to it for every \<open>k\<close>:
  nothing guards the increment against the end of the range of \<^verbatim>\<open>int\<close>. After
  \<open>2 ^ 31\<close> calls on a new instance the counter reads \<open>- 2 ^ 31\<close>, and after \<open>2 ^ 32\<close>
  calls it reads 0, as if no report had been requested.
\<close>

theorem counter_after_wrap:
  "sint (reports_requested
      (snd (poll (replicate 2147483648 (frozen_clock 0)) traffic_priv_zero))) = - 2147483648 \<and>
   reports_requested
      (snd (poll (replicate 4294967296 (frozen_clock 0)) traffic_priv_zero)) = 0 \<and>
   sint (reports_requested
      (snd (poll (replicate 4294967296 (frozen_clock 0)) traffic_priv_zero))) = 0"
  by (simp add: poll_snd traffic_priv_zero_def)

text \<open>
  C10: the counter is a 32-bit integer that wraps around. After \<open>k\<close> calls on a new
  instance it holds \<open>k mod 2 ^ 32\<close> (read unsigned); after \<open>2 ^ 32\<close> calls it is 0
  again, and calls number \<open>2 ^ 32 + 1\<close> and \<open>2 ^ 32 + 11\<close> return messages again. In
  general call number \<open>c\<close> returns messages exactly when \<open>c mod 2 ^ 32\<close> is 1 or 11.
\<close>

theorem counter_wraps_and_reports_again:
  "unat (reports_requested (snd (poll ts traffic_priv_zero))) = length ts mod 2 ^ 32 \<and>
   reports_requested (snd (poll (replicate 4294967296 time) traffic_priv_zero)) = 0 \<and>
   fst (poll (replicate 4294967307 time) traffic_priv_zero) ! 4294967296 \<noteq> None \<and>
   fst (poll (replicate 4294967307 time) traffic_priv_zero) ! 4294967306 \<noteq> None \<and>
   (1 \<le> c \<and> c \<le> length ts \<longrightarrow>
      (fst (poll ts traffic_priv_zero) ! (c - 1) \<noteq> None) =
      (c mod 2 ^ 32 = 1 \<or> c mod 2 ^ 32 = 11))"
proof (intro conjI impI)
  show "unat (reports_requested (snd (poll ts traffic_priv_zero))) = length ts mod 2 ^ 32"
    by (simp add: poll_snd traffic_priv_zero_def counter_unat)
  show "reports_requested (snd (poll (replicate 4294967296 time) traffic_priv_zero)) = 0"
    by (simp add: poll_snd traffic_priv_zero_def)
  have "fst (poll (replicate 4294967307 time) traffic_priv_zero) ! (4294967297 - 1) \<noteq> None"
    by (subst call_present_iff) simp_all
  then show "fst (poll (replicate 4294967307 time) traffic_priv_zero) ! 4294967296 \<noteq> None"
    by simp
  have "fst (poll (replicate 4294967307 time) traffic_priv_zero) ! (4294967307 - 1) \<noteq> None"
    by (subst call_present_iff) simp_all
  then show "fst (poll (replicate 4294967307 time) traffic_priv_zero) ! 4294967306 \<noteq> None"
    by simp
next
  assume "1 \<le> c \<and> c \<le> length ts"
  then have "1 \<le> c" "c \<le> length ts" by simp_all
  then show "(fst (poll ts traffic_priv_zero) ! (c - 1) \<noteq> None) =
      (c mod 2 ^ 32 = 1 \<or> c mod 2 ^ 32 = 11)"
    by (rule call_present_iff)
qed

theorem counter_wraps_and_reports_again_witness:
  "fst (poll (replicate 4294967307 (frozen_clock 0)) traffic_priv_zero) ! 4294967306 \<noteq> None \<and>
   fst (poll (replicate 4294967307 (frozen_clock 0)) traffic_priv_zero) ! 4294967305 = None"
proof -
  note w = counter_wraps_and_reports_again [of "replicate 4294967307 (frozen_clock 0)"]
  from w [of _ 4294967307] w [of _ 4294967306] show ?thesis by simp
qed


subsection \<open>The returned array and the locations\<close>

text \<open>
  C5: whenever the generator returns an array, the array has three entries: two
  messages and then \<^verbatim>\<open>NULL\<close>. It carries no count; a caller that reads from the start
  until the first \<^verbatim>\<open>NULL\<close> reads exactly the two messages.
\<close>

theorem batch_is_null_terminated:
  assumes "fst (traffic_dummy_get_messages time this) = Some arr"
  shows "\<exists>m0 m1. arr = [Some m0, Some m1, None] \<and> length arr = 3 \<and>
    arr ! 0 \<noteq> None \<and> arr ! 1 \<noteq> None \<and> arr ! 2 = None \<and>
    takeWhile (\<lambda>m. m \<noteq> None) arr = [Some m0, Some m1] \<and>
    length (takeWhile (\<lambda>m. m \<noteq> None) arr) = 2"
proof -
  from get_messages_shape [OF assms] show ?thesis
  proof
    assume "reports_requested this + 1 = 1"
    from get_messages_case_1 [OF this, of time] assms show ?thesis by auto
  next
    assume "reports_requested this + 1 = 11"
    from get_messages_case_11 [OF this, of time] assms show ?thesis by auto
  qed
qed

theorem batch_is_null_terminated_witness:
  "\<exists>m0 m1. fst (traffic_dummy_get_messages (frozen_clock 0) traffic_priv_zero) =
      Some [Some m0, Some m1, None] \<and>
    takeWhile (\<lambda>m. m \<noteq> None)
      (the (fst (traffic_dummy_get_messages (frozen_clock 0) traffic_priv_zero))) =
      [Some m0, Some m1]"
proof -
  have "reports_requested traffic_priv_zero + 1 = 1" by (simp add: traffic_priv_zero_def)
  from get_messages_case_1 [OF this, of "frozen_clock 0"]
  have h: "fst (traffic_dummy_get_messages (frozen_clock 0) traffic_priv_zero) =
      Some (the (fst (traffic_dummy_get_messages (frozen_clock 0) traffic_priv_zero)))"
    by simp
  from batch_is_null_terminated [OF h] h show ?thesis by auto
qed

text \<open>
  C6: every message the generator returns, on whichever call, refers to the points of
  its road as the source writes them. The first message, for the A9, goes from Neufahrn
  (11.6208, 48.3164, exit 68, table entry 12732-4) to Allershausen (11.5893, 48.429,
  exit 67, table entry 12732); the second, for the A96, from Graefelfing (11.4481,
  48.1266, exit 36b, table entry 12961-2) to Muenchen-Laim (11.5028, 48.1258, exit 38,
  table entry 12961), the two names with their umlauts in UTF-8.
\<close>

theorem emitted_locations_match_literals:
  assumes "fst (traffic_dummy_get_messages time this) = Some arr"
  shows "\<exists>m0 m1. arr = [Some m0, Some m1, None] \<and>
    msg_id m0 = ''dummy:A9-68-67'' \<and>
    from_point (msg_location m0) =
      \<lparr>lon = 11.6208, lat = 48.3164, junction_name = ''Neufahrn'', junction_ref = ''68'',
       tmc_id = ''12732-4''\<rparr> \<and>
    to_point (msg_location m0) =
      \<lparr>lon = 11.5893, lat = 48.429, junction_name = ''Allershausen'', junction_ref = ''67'',
       tmc_id = ''12732''\<rparr> \<and>
    msg_id m1 = ''dummy:A96-36b-38'' \<and>
    from_point (msg_location m1) =
      \<lparr>lon = 11.4481, lat = 48.1266,
       junction_name = ''Gr'' @ [CHR 0xC3, CHR 0xA4] @ ''felfing'', junction_ref = ''36b'',
       tmc_id = ''12961-2''\<rparr> \<and>
    to_point (msg_location m1) =
      \<lparr>lon = 11.5028, lat = 48.1258,
       junction_name = ''M'' @ [CHR 0xC3, CHR 0xBC] @ ''nchen-Laim'', junction_ref = ''38'',
       tmc_id = ''12961''\<rparr>"
proof -
  from get_messages_shape [OF assms] show ?thesis
  proof
    assume "reports_requested this + 1 = 1"
    from get_messages_case_1 [OF this, of time] assms show ?thesis
      by (auto simp: traffic_location_new_def traffic_point_new_def)
  next
    assume "reports_requested this + 1 = 11"
    from get_messages_case_11 [OF this, of time] assms show ?thesis
      by (auto simp: traffic_location_new_def traffic_point_new_def)
  qed
qed

theorem emitted_locations_match_literals_witness:
  "\<exists>m0 m1. fst (traffic_dummy_get_messages (frozen_clock 0)
        (traffic_priv_zero\<lparr>reports_requested := 10\<rparr>)) = Some [Some m0, Some m1, None] \<and>
    lon (from_point (msg_location m0)) = 11.6208 \<and>
    junction_ref (to_point (msg_location m1)) = ''38''"
proof -
  have "reports_requested (traffic_priv_zero\<lparr>reports_requested := 10\<rparr>) + 1 = 11" by simp
  from get_messages_case_11 [OF this, of "frozen_clock 0"]
  have h: "fst (traffic_dummy_get_messages (frozen_clock 0)
        (traffic_priv_zero\<lparr>reports_requested := 10\<rparr>)) =
      Some (the (fst (traffic_dummy_get_messages (frozen_clock 0)
        (traffic_priv_zero\<lparr>reports_requested := 10\<rparr>))))"
    by simp
  from emitted_locations_match_literals [OF h] h show ?thesis by auto
qed

subsection \<open>Creation and registration\<close>

text \<open>
  C7: \<open>traffic_dummy_new\<close>, whatever the method table held before, allocates a new
  instance at an address not in use, with all fields zero (the counter is 0 and \<open>nav\<close>
  is \<^verbatim>\<open>NULL\<close>), leaves the existing instances as they were, writes into the method
  table the entry for \<open>traffic_dummy_get_messages\<close>, and returns the address. It always
  returns: the function has no failing result.
\<close>

theorem traffic_dummy_new_creates_zeroed_instance:
  "\<exists>this s'.
     traffic_dummy_new navit meth attrs cbl s = ((this, traffic_dummy_meth), s') \<and>
     get_messages traffic_dummy_meth = Some traffic_dummy_get_messages \<and>
     this = length (privs s) \<and>
     privs s' = privs s @ [\<lparr>nav = None, reports_requested = 0\<rparr>] \<and>
     this < length (privs s') \<and>
     privs s' ! this = \<lparr>nav = None, reports_requested = 0\<rparr> \<and>
     reports_requested (privs s' ! this) = 0 \<and>
     take (length (privs s)) (privs s') = privs s"
  by (simp add: new_result traffic_dummy_meth_def traffic_priv_zero_def)

text \<open>
  C8: \<open>plugin_init\<close> enters \<open>traffic_dummy_new\<close> under the name \<^verbatim>\<open>dummy\<close> in the
  traffic category of the registry, and leaves every other entry of the registry, in
  this and in every other category, as it was: it registers nothing else and removes
  nothing. Besides that it asks for one line of debug output.
\<close>

theorem plugin_init_registers_dummy:
  "registry (plugin_init s) category_traffic ''dummy'' = Some traffic_dummy_new \<and>
   (\<forall>c n. (c, n) \<noteq> (category_traffic, ''dummy'') \<longrightarrow>
      registry (plugin_init s) c n = registry s c n) \<and>
   plugin_log (plugin_init s) = plugin_log s @ [(lvl_error, ''enter'' @ [CHR 0x0A])]"
  by (simp add: plugin_init_def plugin_register_category_traffic_def dbg_def Let_def)

theorem plugin_init_registers_dummy_witness:
  "registry (plugin_init \<lparr>registry = (\<lambda>c. Map.empty), plugin_log = []\<rparr>)
     category_traffic ''dummy'' = Some traffic_dummy_new \<and>
   registry (plugin_init \<lparr>registry = (\<lambda>c. Map.empty), plugin_log = []\<rparr>)
     category_traffic ''null'' = None \<and>
   registry (plugin_init \<lparr>registry = (\<lambda>c. Map.empty), plugin_log = []\<rparr>)
     (category_other ''graphics'') ''dummy'' = None"
proof -
  note w = plugin_init_registers_dummy [of "\<lparr>registry = (\<lambda>c. Map.empty), plugin_log = []\<rparr>"]
  from w have "\<And>c n. (c, n) \<noteq> (category_traffic, ''dummy'') \<Longrightarrow>
      registry (plugin_init \<lparr>registry = (\<lambda>c. Map.empty), plugin_log = []\<rparr>) c n = None"
    by simp
  from this [of category_traffic "''null''"] this [of "category_other ''graphics''" "''dummy''"] w
  show ?thesis by simp
qed

subsection \<open>Two instances\<close>

text \<open>
  C9: let two instances be created one after the other, and let any sequence of calls
  follow, on these two or on any other live instance, in any interleaving. Then the two
  instances are distinct objects, every call returns, and what each of the two returns
  over its calls, and its state at the end, is what a fresh instance polled alone with
  the same clocks returns: nothing depends on the calls made on other instances nor on
  the arguments of the constructor. So two instances driven with the same clocks return
  the same sequence of results.
\<close>

theorem instances_are_independent:
  assumes "traffic_dummy_new navit1 meth1 attrs1 cbl1 s0 = ((a, ma), s1)"
    and "traffic_dummy_new navit2 meth2 attrs2 cbl2 s1 = ((b, mb), s2)"
    and "\<forall>c \<in> set cs. fst c < length (privs s2)"
  shows "a \<noteq> b \<and>
    (\<exists>rs s3. run cs s2 = Some (rs, s3) \<and> map fst rs = map fst cs \<and>
       calls_of a rs = fst (poll (calls_of a cs) traffic_priv_zero) \<and>
       calls_of b rs = fst (poll (calls_of b cs) traffic_priv_zero) \<and>
       privs s3 ! a = snd (poll (calls_of a cs) traffic_priv_zero) \<and>
       privs s3 ! b = snd (poll (calls_of b cs) traffic_priv_zero) \<and>
       (calls_of a cs = calls_of b cs \<longrightarrow> calls_of a rs = calls_of b rs))"
proof -
  note ia = new_instance [OF assms(1)]
  note ib = new_instance [OF assms(2)]
  from ia(1,2) ib(1) have ab: "a \<noteq> b" by simp
  have la: "a < length (privs s2)" using ia(2) ib(4) by simp
  have lb: "b < length (privs s2)" by (rule ib(2))
  have pa: "privs s2 ! a = traffic_priv_zero"
    using ia(2,3) ib(4) by (simp add: nth_append)
  have pb: "privs s2 ! b = traffic_priv_zero" by (rule ib(3))
  from run_instances [OF assms(3)] obtain rs s3 where
    run: "run cs s2 = Some (rs, s3)" and fs: "map fst rs = map fst cs" and
    each: "\<forall>x < length (privs s2).
        calls_of x rs = fst (poll (calls_of x cs) (privs s2 ! x)) \<and>
        privs s3 ! x = snd (poll (calls_of x cs) (privs s2 ! x))"
    by blast
  from each la pa have ra: "calls_of a rs = fst (poll (calls_of a cs) traffic_priv_zero)"
    by auto
  from each lb pb have rb: "calls_of b rs = fst (poll (calls_of b cs) traffic_priv_zero)"
    by auto
  from each la pa have qa: "privs s3 ! a = snd (poll (calls_of a cs) traffic_priv_zero)"
    by auto
  from each lb pb have qb: "privs s3 ! b = snd (poll (calls_of b cs) traffic_priv_zero)"
    by auto
  from ab run fs ra rb qa qb show ?thesis by simp
qed

theorem instances_are_independent_witness:
  "\<exists>rs s3.
     run [(0, frozen_clock 5), (1, frozen_clock 5), (1, frozen_clock 7), (0, frozen_clock 7)]
       \<lparr>privs = [traffic_priv_zero, traffic_priv_zero],
        debug_log = [(lvl_error, ''enter'' @ [CHR 0x0A]), (lvl_error, ''enter'' @ [CHR 0x0A])]\<rparr> =
       Some (rs, s3) \<and>
     map fst rs = [0, 1, 1, 0] \<and>
     calls_of 0 rs = calls_of 1 rs"
proof -
  have h1: "traffic_dummy_new None \<lparr>get_messages = None\<rparr> None None \<lparr>privs = [], debug_log = []\<rparr> =
     ((0, traffic_dummy_meth),
      \<lparr>privs = [traffic_priv_zero], debug_log = [(lvl_error, ''enter'' @ [CHR 0x0A])]\<rparr>)"
    by (simp add: new_result)
  have h2: "traffic_dummy_new None \<lparr>get_messages = None\<rparr> None None
      \<lparr>privs = [traffic_priv_zero], debug_log = [(lvl_error, ''enter'' @ [CHR 0x0A])]\<rparr> =
     ((1, traffic_dummy_meth),
      \<lparr>privs = [traffic_priv_zero, traffic_priv_zero],
       debug_log = [(lvl_error, ''enter'' @ [CHR 0x0A]), (lvl_error, ''enter'' @ [CHR 0x0A])]\<rparr>)"
    by (simp add: new_result)
  have h3: "\<forall>c \<in> set [(0, frozen_clock 5), (1, frozen_clock 5), (1, frozen_clock 7),
        (0::nat, frozen_clock 7)].
      fst c < length (privs \<lparr>privs = [traffic_priv_zero, traffic_priv_zero],
        debug_log = [(lvl_error, ''enter'' @ [CHR 0x0A]), (lvl_error, ''enter'' @ [CHR 0x0A])]\<rparr>)"
    by simp
  have h4: "calls_of 0 [(0, frozen_clock 5), (1, frozen_clock 5), (1, frozen_clock 7),
        (0::nat, frozen_clock 7)] =
      calls_of 1 [(0, frozen_clock 5), (1, frozen_clock 5), (1, frozen_clock 7),
        (0, frozen_clock 7)]"
    by (simp add: calls_of_def)
  from instances_are_independent [OF h1 h2 h3] h4 show ?thesis by auto
qed

end
